theory Spec2Isabelle
  imports Main "HOL-Library.Sublist"
begin

section \<open>JavaScript strings and errors\<close>

text \<open>
  A JavaScript string is a sequence of UTF-16 code units. A code unit is a natural number
  below 65536; \<open>js\<close> turns an ASCII literal into its code units. The 8-bit characters
  of \<open>string\<close> would not do: decoding an escape in \<open>stagehand_extract\<close> gives any code
  unit up to \<open>0xFFFF\<close>.
\<close>

type_synonym jstring = "nat list"

abbreviation js :: "string \<Rightarrow> jstring" where
  "js s \<equiv> map of_char s"

text \<open>
  A thrown value. \<open>Error m\<close> is an \<open>Error\<close> instance with the message \<open>m\<close>. For the
  other values \<open>instanceof Error\<close> is false. \<open>Thrown v p\<close> is a value other than null and
  undefined, with \<open>String(value) = v\<close> and the property \<open>message\<close> equal to \<open>p\<close>, which
  is undefined for a string or a number, and may be set on an object. \<open>Nullish v t\<close> is
  null or undefined, with \<open>String(value) = v\<close>; reading a property of it raises a
  \<open>TypeError\<close>, whose message \<open>t\<close> is chosen by the engine.
\<close>

datatype js_error = Error jstring | Thrown jstring "jstring option" | Nullish jstring jstring

text \<open>\<^verbatim>\<open>error instanceof Error ? error.message : String(error)\<close>\<close>

fun errorMsg :: "js_error \<Rightarrow> jstring" where
  "errorMsg (Error m) = m"
| "errorMsg (Thrown v p) = v"
| "errorMsg (Nullish v t) = v"

text \<open>Template-literal conversion of a value that may be undefined.\<close>

fun template :: "jstring option \<Rightarrow> jstring" where
  "template None = js ''undefined''"
| "template (Some s) = s"

text \<open>Truthiness of a string that may be undefined: undefined and the empty string are falsy.\<close>

fun truthy :: "jstring option \<Rightarrow> bool" where
  "truthy None = False"
| "truthy (Some s) = (s \<noteq> [])"

definition startsWith :: "jstring \<Rightarrow> jstring \<Rightarrow> bool" where
  "startsWith s p = prefix p s"

definition str_includes :: "jstring \<Rightarrow> jstring \<Rightarrow> bool" where
  "str_includes s p = sublist p s"

text \<open>\<^verbatim>\<open>s.replace(pat, rep)\<close> with a string pattern: the first occurrence only.\<close>

fun replace_first :: "jstring \<Rightarrow> jstring \<Rightarrow> jstring \<Rightarrow> jstring" where
  "replace_first [] pat rep = (if pat = [] then rep else [])"
| "replace_first (c # cs) pat rep =
     (if prefix pat (c # cs) then rep @ drop (length pat) (c # cs)
      else c # replace_first cs pat rep)"

text \<open>\<^verbatim>\<open>s.split(d)\<close> for a separator of one code unit.\<close>

fun split_on :: "nat \<Rightarrow> jstring \<Rightarrow> jstring list" where
  "split_on d [] = [[]]"
| "split_on d (c # cs) =
     (if c = d then [] # split_on d cs
      else (case split_on d cs of [] \<Rightarrow> [[c]] | l # ls \<Rightarrow> (c # l) # ls))"

text \<open>\<^verbatim>\<open>xs.join(sep)\<close>\<close>

fun join_with :: "jstring \<Rightarrow> jstring list \<Rightarrow> jstring" where
  "join_with sep [] = []"
| "join_with sep [x] = x"
| "join_with sep (x # y # ys) = x @ sep @ join_with sep (y # ys)"

section \<open>Node's \<open>path.join\<close> (POSIX)\<close>

text \<open>
  \<open>path.join\<close> is part of Node, not of the repository; it is modelled after Node's
  \<open>path.posix\<close>: the non-empty arguments are joined with a slash and the result is
  normalised. Normalisation drops empty and \<open>.\<close> segments and resolves \<open>..\<close> against the
  segment before it; above the root of an absolute path \<open>..\<close> is dropped, in a relative
  path it is kept.
\<close>

fun normalizeString :: "bool \<Rightarrow> jstring list \<Rightarrow> jstring list \<Rightarrow> jstring list" where
  "normalizeString allowAboveRoot res [] = res"
| "normalizeString allowAboveRoot res (s # ss) =
     (if s = [] \<or> s = js ''.'' then normalizeString allowAboveRoot res ss
      else if s = js ''..'' then
        (if res \<noteq> [] \<and> last res \<noteq> js ''..''
           then normalizeString allowAboveRoot (butlast res) ss
         else if allowAboveRoot
           then normalizeString allowAboveRoot (res @ [js ''..'']) ss
         else normalizeString allowAboveRoot res ss)
      else normalizeString allowAboveRoot (res @ [s]) ss)"

definition normalize :: "jstring \<Rightarrow> jstring" where
  "normalize p =
     (if p = [] then js ''.''
      else
        let isAbsolute = (hd p = 47);
            trailingSeparator = (last p = 47);
            q = join_with (js ''/'') (normalizeString (\<not> isAbsolute) [] (split_on 47 p))
        in if q = [] then
             (if isAbsolute then js ''/''
              else if trailingSeparator then js ''./'' else js ''.'')
           else
             (if isAbsolute then js ''/'' else []) @ q
               @ (if trailingSeparator then js ''/'' else []))"

definition path_join :: "jstring list \<Rightarrow> jstring" where
  "path_join args =
     (let parts = filter (\<lambda>a. a \<noteq> []) args
      in if parts = [] then js ''.'' else normalize (join_with (js ''/'') parts))"

section \<open>The static artifact server (\<open>httpStaticServer.ts\<close>)\<close>

text \<open>
  The file system as the request listener sees it: \<open>fs.readdir\<close> and \<open>fs.readFile\<close> give
  an error or a result. \<open>encodeURIComponent\<close> is a built-in and a parameter here.
\<close>

record file_system =
  readdir :: "jstring \<Rightarrow> js_error + jstring list"
  readFile :: "jstring \<Rightarrow> js_error + jstring"

record http_response =
  status :: nat
  contentType :: "jstring option"
  body :: jstring

definition respond :: "nat \<Rightarrow> jstring option \<Rightarrow> jstring \<Rightarrow> http_response" where
  "respond st ct b = \<lparr>status = st, contentType = ct, body = b\<rparr>"

definition listing_link :: "(jstring \<Rightarrow> jstring) \<Rightarrow> jstring \<Rightarrow> jstring" where
  \<open>listing_link encodeURIComponent f =
     js ''<li><a href="/tmp/'' @ encodeURIComponent f @ js ''">'' @ f @ js ''</a></li>''\<close>

definition listing_html :: "(jstring \<Rightarrow> jstring) \<Rightarrow> jstring list \<Rightarrow> jstring" where
  \<open>listing_html encodeURIComponent files =
     (let links = join_with (js ''\<newline>'')
            (map (listing_link encodeURIComponent)
               (filter (\<lambda>f. \<not> startsWith f (js ''.'')) files))
      in js ''<!DOCTYPE html><html><head><title>tmp Directory Listing</title></head><body><h1>Files in /tmp/</h1><ul>''
           @ links @ js ''</ul></body></html>'')\<close>

text \<open>
  The request listener of \<open>startStaticHttpServer\<close>, for one request with URL \<open>url\<close>
  (\<open>req.url\<close> may be undefined). \<open>TMP_DIR\<close> is the resolved artifact directory.
\<close>

definition requestListener ::
  "(jstring \<Rightarrow> jstring) \<Rightarrow> jstring \<Rightarrow> file_system \<Rightarrow> jstring option \<Rightarrow> http_response" where
  "requestListener encodeURIComponent TMP_DIR fs req_url =
     (case req_url of
        None \<Rightarrow> respond 400 None (js ''Bad Request'')
      | Some url \<Rightarrow>
          if url = [] then respond 400 None (js ''Bad Request'')
          else if \<not> startsWith url (js ''/tmp/'') then respond 404 None (js ''Not Found'')
          else if url = js ''/tmp/'' \<or> url = js ''/tmp'' then
            (case readdir fs TMP_DIR of
               Inl err \<Rightarrow> respond 500 None (js ''Failed to read directory'')
             | Inr files \<Rightarrow>
                 respond 200 (Some (js ''text/html'')) (listing_html encodeURIComponent files))
          else
            let filePath = path_join [TMP_DIR, replace_first url (js ''/tmp/'') []]
            in if \<not> startsWith filePath TMP_DIR then respond 403 None (js ''Forbidden'')
               else (case readFile fs filePath of
                       Inl err \<Rightarrow> respond 404 None (js ''Not Found'')
                     | Inr data \<Rightarrow> respond 200 (Some (js ''text/html'')) data))"

text \<open>
  What the specification means by a path inside the artifact directory: the directory
  itself or a path below it.
\<close>

definition inside_directory :: "jstring \<Rightarrow> jstring \<Rightarrow> bool" where
  "inside_directory dir p = (p = dir \<or> prefix (dir @ js ''/'') p)"

text \<open>A file system with one file, next to the artifact directory \<open>/app/tmp\<close>.\<close>

definition sibling_fs :: file_system where
  "sibling_fs =
     \<lparr>readdir = (\<lambda>d. Inr []),
      readFile = (\<lambda>p. if p = js ''/app/tmp-evil/secret.html'' then Inr (js ''TOP SECRET'')
                       else Inl (Error (js ''ENOENT'')))\<rparr>"

section \<open>\<open>JSON.stringify\<close>\<close>

text \<open>
  The values the configuration object holds: undefined, booleans, non-negative integers,
  strings and objects (properties in insertion order). \<open>JOpaque\<close> is a value of a class
  whose source is not available (the AI-SDK client): it is given by its serialisation at
  the current indentation, undefined when \<open>JSON.stringify\<close> omits it. A function-valued
  property serialises like undefined.
\<close>

datatype json =
    JUndefined
  | JBool bool
  | JNum nat
  | JStr jstring
  | JObj "(jstring \<times> json) list"
  | JOpaque "jstring \<Rightarrow> jstring option"

text \<open>Decimal digits of a number.\<close>

fun show_nat :: "nat \<Rightarrow> jstring" where
  "show_nat n = (if n < 10 then [48 + n] else show_nat (n div 10) @ [48 + n mod 10])"

declare show_nat.simps [simp del]

definition hex_digit :: "nat \<Rightarrow> nat" where
  "hex_digit d = (if d < 10 then 48 + d else 87 + d)"

definition unicode_escape :: "nat \<Rightarrow> jstring" where
  "unicode_escape c =
     [92, 117, hex_digit (c div 4096 mod 16), hex_digit (c div 256 mod 16),
      hex_digit (c div 16 mod 16), hex_digit (c mod 16)]"

definition is_high_surrogate :: "nat \<Rightarrow> bool" where
  "is_high_surrogate c = (0xD800 \<le> c \<and> c \<le> 0xDBFF)"

definition is_low_surrogate :: "nat \<Rightarrow> bool" where
  "is_low_surrogate c = (0xDC00 \<le> c \<and> c \<le> 0xDFFF)"

text \<open>
  \<open>QuoteJSONString\<close> of ECMAScript: the short escapes, \<open>\u00XX\<close> for the other control
  characters and for lone surrogates, every other code unit as it is.
\<close>

fun quote_units :: "jstring \<Rightarrow> jstring" where
  "quote_units [] = []"
| "quote_units (c # cs) =
     (if c = 8 then [92, 98] @ quote_units cs
      else if c = 9 then [92, 116] @ quote_units cs
      else if c = 10 then [92, 110] @ quote_units cs
      else if c = 12 then [92, 102] @ quote_units cs
      else if c = 13 then [92, 114] @ quote_units cs
      else if c = 34 then [92, 34] @ quote_units cs
      else if c = 92 then [92, 92] @ quote_units cs
      else if c < 32 then unicode_escape c @ quote_units cs
      else if is_high_surrogate c then
        (case cs of
           [] \<Rightarrow> unicode_escape c
         | d # ds \<Rightarrow>
             if is_low_surrogate d then c # d # quote_units ds
             else unicode_escape c @ quote_units cs)
      else if is_low_surrogate c then unicode_escape c @ quote_units cs
      else c # quote_units cs)"

definition QuoteJSONString :: "jstring \<Rightarrow> jstring" where
  "QuoteJSONString s = [34] @ quote_units s @ [34]"

text \<open>
  \<open>SerializeJSONProperty\<close> and the member list of \<open>SerializeJSONObject\<close>, for the
  indentation unit \<open>gap\<close> and the current indentation \<open>indent\<close>. A property whose value
  serialises to undefined is left out.
\<close>

fun SerializeJSONProperty :: "jstring \<Rightarrow> jstring \<Rightarrow> json \<Rightarrow> jstring option"
  and SerializeMembers :: "jstring \<Rightarrow> jstring \<Rightarrow> (jstring \<times> json) list \<Rightarrow> jstring list" where
  "SerializeJSONProperty gap indent JUndefined = None"
| "SerializeJSONProperty gap indent (JBool b) = Some (if b then js ''true'' else js ''false'')"
| "SerializeJSONProperty gap indent (JNum n) = Some (show_nat n)"
| "SerializeJSONProperty gap indent (JStr s) = Some (QuoteJSONString s)"
| "SerializeJSONProperty gap indent (JOpaque f) = f indent"
| "SerializeJSONProperty gap indent (JObj props) =
     (let stepback = indent;
          indent' = indent @ gap;
          partial = SerializeMembers gap indent' props
      in Some (if partial = [] then js ''{}''
               else if gap = [] then js ''{'' @ join_with (js '','') partial @ js ''}''
               else js ''{\<newline>'' @ indent' @ join_with (js '',\<newline>'' @ indent') partial
                      @ js ''\<newline>'' @ stepback @ js ''}''))"
| "SerializeMembers gap indent [] = []"
| "SerializeMembers gap indent ((k, v) # ps) =
     (case SerializeJSONProperty gap indent v of
        None \<Rightarrow> SerializeMembers gap indent ps
      | Some s \<Rightarrow>
          (QuoteJSONString k @ js '':'' @ (if gap = [] then [] else js '' '') @ s)
            # SerializeMembers gap indent ps)"

text \<open>\<^verbatim>\<open>JSON.stringify(value, null, 2)\<close> of an object in a template literal.\<close>

definition stringify2 :: "json \<Rightarrow> jstring" where
  "stringify2 v = template (SerializeJSONProperty (js ''  '') [] v)"

section \<open>The Stagehand configuration (\<open>server.ts\<close>, lines 40 to 105)\<close>

datatype environment = BROWSERBASE | LOCAL

record session_create_params =
  sessionProjectId :: jstring
  contextId :: "jstring option"

record launch_options =
  cdpUrl :: "jstring option"

text \<open>
  \<open>ConstructorParams\<close> as the module builds it. \<open>llmClient\<close> is the AI-SDK client object,
  present when OpenRouter is configured; \<open>modelName\<close> and \<open>modelClientOptions\<close> (an object
  with the one property \<open>apiKey\<close>, which may be undefined) are present otherwise.
\<close>

record ConstructorParams =
  env :: environment
  apiKey :: "jstring option"
  projectId :: "jstring option"
  domSettleTimeoutMs :: nat
  browserbaseSessionCreateParams :: "session_create_params option"
  localBrowserLaunchOptions :: "launch_options option"
  enableCaching :: bool
  browserbaseSessionID :: "jstring option"
  useAPI :: bool
  llmClient :: "(jstring \<Rightarrow> jstring option) option"
  modelName :: "jstring option"
  modelClientOptions :: "jstring option option"

text \<open>\<^verbatim>\<open>a || b\<close> on strings that may be undefined, with a string default.\<close>

fun or_default :: "jstring option \<Rightarrow> jstring \<Rightarrow> jstring" where
  "or_default None d = d"
| "or_default (Some s) d = (if s = [] then d else s)"

definition stagehandConfig ::
  "(jstring \<Rightarrow> jstring option) \<Rightarrow> (jstring \<Rightarrow> jstring option) \<Rightarrow> ConstructorParams" where
  "stagehandConfig process_env aiSdkClient =
     (let hosted = (truthy (process_env (js ''BROWSERBASE_API_KEY''))
                    \<and> truthy (process_env (js ''BROWSERBASE_PROJECT_ID'')));
          openRouter = truthy (process_env (js ''OPENROUTER_API_KEY''))
      in \<lparr>env = (if hosted then BROWSERBASE else LOCAL),
          apiKey = process_env (js ''BROWSERBASE_API_KEY''),
          projectId = process_env (js ''BROWSERBASE_PROJECT_ID''),
          domSettleTimeoutMs = 30000,
          browserbaseSessionCreateParams =
            (if hosted then
               Some \<lparr>sessionProjectId = template (process_env (js ''BROWSERBASE_PROJECT_ID'')),
                     contextId = (if truthy (process_env (js ''CONTEXT_ID''))
                                  then process_env (js ''CONTEXT_ID'') else None)\<rparr>
             else None),
          localBrowserLaunchOptions =
            (if truthy (process_env (js ''LOCAL_CDP_URL''))
             then Some \<lparr>cdpUrl = process_env (js ''LOCAL_CDP_URL'')\<rparr> else None),
          enableCaching = True,
          browserbaseSessionID = None,
          useAPI = False,
          llmClient = (if openRouter then Some aiSdkClient else None),
          modelName =
            (if openRouter then None
             else Some (or_default (process_env (js ''OPENAI_MODEL_ID'')) (js ''gpt-4o-mini''))),
          modelClientOptions =
            (if openRouter then None else Some (process_env (js ''OPENAI_API_KEY'')))\<rparr>)"

fun json_string :: "jstring option \<Rightarrow> json" where
  "json_string None = JUndefined"
| "json_string (Some s) = JStr s"

fun json_environment :: "environment \<Rightarrow> json" where
  "json_environment BROWSERBASE = JStr (js ''BROWSERBASE'')"
| "json_environment LOCAL = JStr (js ''LOCAL'')"

definition json_session_create_params :: "session_create_params \<Rightarrow> json" where
  "json_session_create_params p =
     JObj [(js ''projectId'', JStr (sessionProjectId p)),
           (js ''browserSettings'',
            (case contextId p of
               None \<Rightarrow> JUndefined
             | Some c \<Rightarrow>
                 JObj [(js ''context'', JObj [(js ''id'', JStr c), (js ''persist'', JBool True)])]))]"

text \<open>
  The configuration object as \<open>JSON.stringify\<close> reads it: its own properties in insertion
  order, the spread model properties last. \<open>logger\<close> is a function.
\<close>

definition config_json :: "ConstructorParams \<Rightarrow> json" where
  "config_json c =
     JObj ([(js ''env'', json_environment (env c)),
            (js ''apiKey'', json_string (apiKey c)),
            (js ''projectId'', json_string (projectId c)),
            (js ''logger'', JUndefined),
            (js ''domSettleTimeoutMs'', JNum (domSettleTimeoutMs c)),
            (js ''browserbaseSessionCreateParams'',
             (case browserbaseSessionCreateParams c of
                None \<Rightarrow> JUndefined | Some p \<Rightarrow> json_session_create_params p)),
            (js ''localBrowserLaunchOptions'',
             (case localBrowserLaunchOptions c of
                None \<Rightarrow> JUndefined
              | Some l \<Rightarrow> JObj [(js ''cdpUrl'', json_string (cdpUrl l))])),
            (js ''enableCaching'', JBool (enableCaching c)),
            (js ''browserbaseSessionID'', json_string (browserbaseSessionID c)),
            (js ''useAPI'', JBool (useAPI c))]
           @ (case llmClient c of
                None \<Rightarrow> [] | Some f \<Rightarrow> [(js ''llmClient'', JOpaque f)])
           @ (case modelName c of
                None \<Rightarrow> [] | Some m \<Rightarrow> [(js ''modelName'', JStr m)])
           @ (case modelClientOptions c of
                None \<Rightarrow> []
              | Some k \<Rightarrow> [(js ''modelClientOptions'', JObj [(js ''apiKey'', json_string k)])]))"

section \<open>The session manager (\<open>ensureStagehand\<close>)\<close>

text \<open>
  A Stagehand object is identified by its allocation number. The state holds the module
  variable \<open>stagehand\<close>, the number of objects constructed so far, the operation log, and a
  trace of the calls made to the automation library on behalf of the session manager.
\<close>

type_synonym handle = nat

datatype event = Construct | Init handle | Probe handle

record server_state =
  stagehand :: "handle option"
  allocated :: nat
  operationLogs :: "jstring list"
  trace :: "event list"
  files :: "(jstring \<times> jstring) list"
  screenshots :: "(jstring \<times> jstring) list"
  notifications :: nat

text \<open>
  What the automation library does during one call of \<open>ensureStagehand\<close>: whether the
  constructor, \<open>init()\<close> and the liveness probe \<open>page.evaluate(() => document.title)\<close>
  throw.
\<close>

record stagehand_world =
  construct :: "js_error option"
  init :: "handle \<Rightarrow> js_error option"
  probe :: "handle \<Rightarrow> js_error option"

text \<open>
  \<open>log(message, level)\<close> of \<open>logging.js\<close>, whose source is not available, by its effect
  on the operation log; \<open>serverInstance\<close> tells whether \<open>getServerInstance()\<close> returns a
  server.
\<close>

record logging =
  log :: "jstring \<Rightarrow> jstring \<Rightarrow> jstring list \<Rightarrow> jstring list"
  serverInstance :: bool

definition config_error_message :: jstring where
  \<open>config_error_message =
     js ''Using a local browser without providing a CDP URL is not supported. Please provide a CDP URL using the LOCAL_CDP_URL environment variable.\<newline>\<newline>To launch your browser in "debug", see our documentation.\<newline>\<newline>https://docs.stagehand.dev/examples/customize_browser#use-your-personal-browser''\<close>

text \<open>\<^verbatim>\<open>stagehandConfig.localBrowserLaunchOptions?.cdpUrl\<close>\<close>

definition config_cdpUrl :: "ConstructorParams \<Rightarrow> jstring option" where
  "config_cdpUrl c = (case localBrowserLaunchOptions c of None \<Rightarrow> None | Some l \<Rightarrow> cdpUrl l)"

text \<open>The guard at the head of \<open>ensureStagehand\<close>.\<close>

definition local_without_cdp :: "ConstructorParams \<Rightarrow> bool" where
  "local_without_cdp c = (env c = LOCAL \<and> \<not> truthy (config_cdpUrl c))"

text \<open>
  \<^verbatim>\<open>stagehand = new Stagehand(stagehandConfig); await stagehand.init(); return stagehand;\<close>
  The variable is assigned before \<open>init()\<close> runs.
\<close>

definition create_session ::
  "stagehand_world \<Rightarrow> server_state \<Rightarrow> (js_error + handle) \<times> server_state" where
  "create_session w s =
     (let s1 = s\<lparr>trace := trace s @ [Construct]\<rparr>
      in case construct w of
           Some e \<Rightarrow> (Inl e, s1)
         | None \<Rightarrow>
             let h = allocated s1;
                 s2 = s1\<lparr>stagehand := Some h, allocated := Suc h, trace := trace s1 @ [Init h]\<rparr>
             in (case init w h of
                   Some e \<Rightarrow> (Inl e, s2)
                 | None \<Rightarrow> (Inr h, s2)))"

text \<open>The test on the probe's failure: an \<open>Error\<close> whose message names an invalid session.\<close>

fun is_invalidation :: "js_error \<Rightarrow> bool" where
  "is_invalidation (Error m) =
     (str_includes m (js ''Target page, context or browser has been closed'')
      \<or> str_includes m (js ''Session expired'')
      \<or> str_includes m (js ''context destroyed''))"
| "is_invalidation (Thrown v p) = False"
| "is_invalidation (Nullish v t) = False"

text \<open>The body of the outer \<open>try\<close> of \<open>ensureStagehand\<close>.\<close>

definition acquire_session ::
  "logging \<Rightarrow> stagehand_world \<Rightarrow> server_state \<Rightarrow> (js_error + handle) \<times> server_state" where
  "acquire_session L w s =
     (case stagehand s of
        None \<Rightarrow> create_session w s
      | Some h \<Rightarrow>
          let s1 = s\<lparr>trace := trace s @ [Probe h]\<rparr>
          in (case probe w h of
                None \<Rightarrow> (Inr h, s1)
              | Some e \<Rightarrow>
                  if is_invalidation e then
                    create_session w
                      (s1\<lparr>operationLogs :=
                           log L (js ''Browser session expired, reinitializing Stagehand...'')
                             (js ''info'') (operationLogs s1)\<rparr>)
                  else (Inl e, s1)))"

definition ensureStagehand ::
  "logging \<Rightarrow> ConstructorParams \<Rightarrow> stagehand_world \<Rightarrow> server_state
     \<Rightarrow> (js_error + handle) \<times> server_state" where
  "ensureStagehand L cfg w s =
     (if local_without_cdp cfg then (Inl (Error config_error_message), s)
      else
        (case acquire_session L w s of
           (Inl e, s') \<Rightarrow>
             (Inl e,
              s'\<lparr>operationLogs :=
                   log L (js ''Failed to initialize/reinitialize Stagehand: '' @ errorMsg e)
                     (js ''error'') (operationLogs s')\<rparr>)
         | (Inr h, s') \<Rightarrow> (Inr h, s')))"

section \<open>The tools (\<open>tools.ts\<close>)\<close>

text \<open>The names of the registry \<open>TOOLS\<close>; dispatch reads nothing else of a descriptor.\<close>

definition TOOLS :: "jstring list" where
  "TOOLS = [js ''stagehand_navigate'', js ''stagehand_act'', js ''stagehand_extract'',
            js ''stagehand_observe'', js ''stagehand_get_html'', js ''screenshot'']"

datatype content_item = TextItem jstring | ImageItem jstring jstring

record CallToolResult =
  content :: "content_item list"
  isError :: bool

text \<open>The arguments of a call, each of which may be missing.\<close>

record tool_args =
  url :: "jstring option"
  action :: "jstring option"
  variables :: "(jstring \<times> jstring) list option"
  instruction :: "jstring option"
  selector :: "jstring option"

text \<open>
  The document as the function evaluated inside the page sees it. \<open>evaluate_xpath\<close> is
  \<open>document.evaluate(selector, document, null, FIRST_ORDERED_NODE_TYPE, null).singleNodeValue\<close>
  and \<open>querySelector\<close> is \<open>document.querySelector(selector)\<close>: both may throw, find no
  node, or find a node, which is an element (given by its outer HTML) or not.
\<close>

datatype node = ElementNode jstring | OtherNode

record element =
  tagName :: jstring
  elementId :: jstring
  className :: jstring

record document =
  evaluate_xpath :: "jstring \<Rightarrow> js_error + node option"
  querySelector :: "jstring \<Rightarrow> js_error + node option"
  allElements :: "element list"
  title :: jstring
  href :: jstring
  documentOuterHTML :: jstring

text \<open>
  What the page of the session does during one tool call. \<open>observe\<close> gives the text
  \<open>JSON.stringify(observations)\<close>; \<open>document\<close> is an error when \<open>page.evaluate\<close> itself
  throws; \<open>screenshot\<close> gives the buffer in base64.
\<close>

record page =
  goto :: "jstring option \<Rightarrow> js_error option"
  act :: "jstring option \<Rightarrow> (jstring \<times> jstring) list option \<Rightarrow> js_error option"
  innerText :: "js_error + jstring"
  observe :: "jstring option \<Rightarrow> js_error + jstring"
  document :: "js_error + document"
  screenshot :: "js_error + jstring"
  sessionID :: "jstring option"

text \<open>
  Built-ins and the environment of a tool call: \<open>String.prototype.toLowerCase\<close>, the
  resolved artifact directory, \<open>Date.now()\<close>, \<open>randomBytes(6).toString("hex")\<close>, whether
  \<open>fs.mkdir\<close> and \<open>fs.writeFile\<close> throw, the port variable, and
  \<open>new Date().toISOString()\<close>.
\<close>

record tool_io =
  toLowerCase :: "jstring \<Rightarrow> jstring"
  tmp_dir :: jstring
  now :: nat
  randomHex :: jstring
  mkdir :: "js_error option"
  writeFile :: "js_error option"
  STAGEHAND_HTTP_PORT :: "jstring option"
  isoTime :: jstring

text \<open>\<^verbatim>\<open>Operation logs:\n${operationLogs.join("\n")}\<close>\<close>

definition operation_logs_item :: "server_state \<Rightarrow> content_item" where
  "operation_logs_item s =
     TextItem (js ''Operation logs:\<newline>'' @ join_with (js ''\<newline>'') (operationLogs s))"

text \<open>The error result of the tools that report the operation log.\<close>

definition failure_with_logs :: "jstring \<Rightarrow> js_error \<Rightarrow> server_state \<Rightarrow> CallToolResult" where
  "failure_with_logs what e s =
     \<lparr>content = [TextItem (what @ errorMsg e), operation_logs_item s], isError = True\<rparr>"

subsection \<open>\<open>stagehand_navigate\<close> and \<open>stagehand_act\<close>\<close>

definition case_stagehand_navigate ::
  "tool_args \<Rightarrow> page \<Rightarrow> server_state \<Rightarrow> CallToolResult \<times> server_state" where
  "case_stagehand_navigate args pg s =
     (case goto pg (url args) of
        None \<Rightarrow>
          (\<lparr>content =
              [TextItem (js ''Navigated to: '' @ template (url args)),
               TextItem (js ''View the live session here: https://browserbase.com/sessions/''
                         @ template (sessionID pg))],
            isError = False\<rparr>, s)
      | Some e \<Rightarrow> (failure_with_logs (js ''Failed to navigate: '') e s, s))"

definition case_stagehand_act ::
  "tool_args \<Rightarrow> page \<Rightarrow> server_state \<Rightarrow> CallToolResult \<times> server_state" where
  "case_stagehand_act args pg s =
     (case act pg (action args) (variables args) of
        None \<Rightarrow>
          (\<lparr>content = [TextItem (js ''Action performed: '' @ template (action args))],
            isError = False\<rparr>, s)
      | Some e \<Rightarrow> (failure_with_logs (js ''Failed to perform action: '') e s, s))"

subsection \<open>\<open>stagehand_extract\<close>\<close>

text \<open>White space of \<open>trim()\<close> and of \<open>\s\<close>: the same set of code units.\<close>

definition is_whitespace :: "nat \<Rightarrow> bool" where
  "is_whitespace c =
     (c \<in> set [9, 10, 11, 12, 13, 32, 0xA0, 0x1680, 0x2028, 0x2029, 0x202F, 0x205F, 0x3000, 0xFEFF]
      \<or> (0x2000 \<le> c \<and> c \<le> 0x200A))"

definition trim :: "jstring \<Rightarrow> jstring" where
  "trim s = rev (dropWhile is_whitespace (rev (dropWhile is_whitespace s)))"

definition is_alpha :: "nat \<Rightarrow> bool" where
  "is_alpha c = ((65 \<le> c \<and> c \<le> 90) \<or> (97 \<le> c \<and> c \<le> 122))"

definition is_digit :: "nat \<Rightarrow> bool" where
  "is_digit c = (48 \<le> c \<and> c \<le> 57)"

text \<open>\<^verbatim>\<open>[a-zA-Z0-9_-]\<close>\<close>

definition is_class_char :: "nat \<Rightarrow> bool" where
  "is_class_char c = (is_alpha c \<or> is_digit c \<or> c = 95 \<or> c = 45)"

text \<open>\<^verbatim>\<open>[a-zA-Z-]\<close>\<close>

definition is_property_char :: "nat \<Rightarrow> bool" where
  "is_property_char c = (is_alpha c \<or> c = 45)"

text \<open>\<^verbatim>\<open>[a-zA-Z0-9%\s\(\)\.,-]\<close>\<close>

definition is_value_char :: "nat \<Rightarrow> bool" where
  "is_value_char c =
     (is_alpha c \<or> is_digit c \<or> c = 37 \<or> is_whitespace c \<or> c = 40 \<or> c = 41 \<or> c = 46
      \<or> c = 44 \<or> c = 45)"

text \<open>
  \<^verbatim>\<open>line.match(/^\.[a-zA-Z0-9_-]+\s*{/)\<close>: a dot, one or more class characters, any white
  space, an opening brace. The three character sets are disjoint, so the longest run of
  class characters is the only one that can match.
\<close>

definition matches_class_rule :: "jstring \<Rightarrow> bool" where
  "matches_class_rule line =
     (case line of
        [] \<Rightarrow> False
      | c # rest \<Rightarrow>
          c = 46 \<and> takeWhile is_class_char rest \<noteq> []
          \<and> (case dropWhile is_whitespace (dropWhile is_class_char rest) of
                [] \<Rightarrow> False
              | d # after \<Rightarrow> d = 123))"

text \<open>
  \<^verbatim>\<open>line.match(/^[a-zA-Z-]+:[a-zA-Z0-9%\s\(\)\.,-]+;$/)\<close>: one or more property
  characters, a colon, one or more value characters, a semicolon, the end of the line.
\<close>

definition matches_declaration :: "jstring \<Rightarrow> bool" where
  "matches_declaration line =
     (takeWhile is_property_char line \<noteq> []
      \<and> (case dropWhile is_property_char line of
            [] \<Rightarrow> False
          | c # rest \<Rightarrow>
              c = 58 \<and> rest \<noteq> [] \<and> last rest = 59 \<and> butlast rest \<noteq> []
              \<and> list_all is_value_char (butlast rest)))"

text \<open>The callback of \<open>filter\<close>.\<close>

definition keep_line :: "jstring \<Rightarrow> bool" where
  "keep_line line =
     (if line = [] then False
      else if (str_includes line (js ''{'') \<and> str_includes line (js ''}''))
              \<or> str_includes line (js ''@keyframes'')
              \<or> matches_class_rule line
              \<or> matches_declaration line
        then False
      else True)"

definition is_hex :: "nat \<Rightarrow> bool" where
  "is_hex c = (is_digit c \<or> (97 \<le> c \<and> c \<le> 102) \<or> (65 \<le> c \<and> c \<le> 70))"

definition hex_value :: "nat \<Rightarrow> nat" where
  "hex_value c = (if is_digit c then c - 48 else if 97 \<le> c then c - 87 else c - 55)"

text \<open>\<^verbatim>\<open>String.fromCharCode(parseInt(hex, 16))\<close> for four hexadecimal digits.\<close>

definition fromCharCode_hex :: "nat \<Rightarrow> nat \<Rightarrow> nat \<Rightarrow> nat \<Rightarrow> nat" where
  "fromCharCode_hex a b c d =
     (((hex_value a * 16 + hex_value b) * 16 + hex_value c) * 16 + hex_value d) mod 65536"

text \<open>
  \<^verbatim>\<open>line.replace(/\\u([0-9a-fA-F]{4})/g, ...)\<close>: from left to right, every backslash, \<open>u\<close>
  and four hexadecimal digits become one code unit; the replacement is not scanned again.
\<close>

fun decode_unicode :: "jstring \<Rightarrow> jstring" where
  "decode_unicode (b # u # h1 # h2 # h3 # h4 # rest) =
     (if b = 92 \<and> u = 117 \<and> is_hex h1 \<and> is_hex h2 \<and> is_hex h3 \<and> is_hex h4
      then fromCharCode_hex h1 h2 h3 h4 # decode_unicode rest
      else b # decode_unicode (u # h1 # h2 # h3 # h4 # rest))"
| "decode_unicode (c # rest) = c # decode_unicode rest"
| "decode_unicode [] = []"

text \<open>The cleaned lines of the page text, joined by newlines.\<close>

definition extract_content :: "jstring \<Rightarrow> jstring" where
  "extract_content bodyText =
     join_with (js ''\<newline>'')
       (map decode_unicode (filter keep_line (map trim (split_on 10 bodyText))))"

text \<open>
  \<^verbatim>\<open>(error as Error).message\<close> in a template literal: the cast does nothing at run time,
  so the property is read off whatever was thrown, and reading it off null or undefined
  raises a \<open>TypeError\<close>.
\<close>

fun message_property :: "js_error \<Rightarrow> js_error + jstring" where
  "message_property (Error m) = Inr m"
| "message_property (Thrown v p) = Inr (template p)"
| "message_property (Nullish v t) = Inl (Error t)"

text \<open>
  The \<open>catch\<close> block of this tool is the only one that can throw itself; the exception
  then leaves \<open>handleToolCall\<close>.
\<close>

definition case_stagehand_extract ::
  "page \<Rightarrow> server_state \<Rightarrow> (js_error + CallToolResult) \<times> server_state" where
  "case_stagehand_extract pg s =
     (case innerText pg of
        Inr bodyText \<Rightarrow>
          (Inr \<lparr>content = [TextItem (js ''Extracted content:\<newline>'' @ extract_content bodyText)],
                isError = False\<rparr>, s)
      | Inl e \<Rightarrow>
          (case message_property e of
             Inl typeError \<Rightarrow> (Inl typeError, s)
           | Inr m \<Rightarrow>
               (Inr \<lparr>content = [TextItem (js ''Failed to extract content: '' @ m)],
                     isError = True\<rparr>, s)))"

text \<open>
  The cleanup pass as the specification words it: split into lines, trim each line, drop
  the lines with both braces, the \<open>@keyframes\<close> lines, the lines with a leading class rule
  and the single declarations, decode the escapes, join with newlines.
\<close>

definition spec_dropped :: "jstring \<Rightarrow> bool" where
  "spec_dropped line =
     ((str_includes line (js ''{'') \<and> str_includes line (js ''}''))
      \<or> str_includes line (js ''@keyframes'')
      \<or> matches_class_rule line
      \<or> matches_declaration line)"

definition spec_extract :: "jstring \<Rightarrow> jstring" where
  "spec_extract bodyText =
     join_with (js ''\<newline>'')
       (map decode_unicode
          (filter (\<lambda>line. \<not> spec_dropped line) (map trim (split_on 10 bodyText))))"

subsection \<open>\<open>stagehand_observe\<close>\<close>

definition case_stagehand_observe ::
  "tool_args \<Rightarrow> page \<Rightarrow> server_state \<Rightarrow> CallToolResult \<times> server_state" where
  "case_stagehand_observe args pg s =
     (case observe pg (instruction args) of
        Inr observations \<Rightarrow>
          (\<lparr>content = [TextItem (js ''Observations: '' @ observations)], isError = False\<rparr>, s)
      | Inl e \<Rightarrow> (failure_with_logs (js ''Failed to observe: '') e s, s))"

subsection \<open>\<open>stagehand_get_html\<close>\<close>

definition xpath_not_found_head :: jstring where
  \<open>xpath_not_found_head =
     js ''<!DOCTYPE html>\<newline><html>\<newline><head><title>XPath Element Not Found</title></head>\<newline><body>\<newline><h1>XPath Element Not Found</h1>\<newline><p>The XPath selector did not match any elements on the page.</p>\<newline><h2>Details:</h2>\<newline><ul>\<newline>  <li><strong>XPath Selector:</strong> ''\<close>

definition xpath_not_found_tail :: jstring where
  \<open>xpath_not_found_tail =
     js '' characters</li>\<newline></ul>\<newline><h2>Suggestions:</h2>\<newline><ul>\<newline>  <li>Check if the XPath selector is correct</li>\<newline>  <li>Verify that the element exists on the page</li>\<newline>  <li>Try using browser developer tools to test the XPath selector</li>\<newline>  <li>Consider using a CSS selector instead if possible</li>\<newline></ul>\<newline></body>\<newline></html>''\<close>

definition css_not_found_head :: jstring where
  \<open>css_not_found_head =
     js ''<!DOCTYPE html>\<newline><html>\<newline><head><title>CSS Element Not Found</title></head>\<newline><body>\<newline><h1>CSS Element Not Found</h1>\<newline><p>The CSS selector did not match any elements on the page.</p>\<newline><h2>Details:</h2>\<newline><ul>\<newline>  <li><strong>CSS Selector:</strong> ''\<close>

definition css_not_found_tail :: jstring where
  \<open>css_not_found_tail =
     js ''</li>\<newline></ul>\<newline><h2>Suggestions:</h2>\<newline><ul>\<newline>  <li>Check if the CSS selector syntax is correct</li>\<newline>  <li>Verify that the element exists on the page</li>\<newline>  <li>Try using browser developer tools to test the CSS selector</li>\<newline>  <li>Consider using a simpler selector (e.g., by ID or a unique class)</li>\<newline>  <li>Check if the element is dynamically added to the page</li>\<newline></ul>\<newline></body>\<newline></html>''\<close>

text \<open>The part of both documents between the selector and the content length.\<close>

definition not_found_details :: "document \<Rightarrow> jstring" where
  \<open>not_found_details d =
     js ''</li>\<newline>  <li><strong>Document Title:</strong> '' @ title d
     @ js ''</li>\<newline>  <li><strong>Document URL:</strong> '' @ href d
     @ js ''</li>\<newline>  <li><strong>Page Content Length:</strong> ''
     @ show_nat (length (documentOuterHTML d))\<close>

definition xpath_not_found :: "document \<Rightarrow> jstring \<Rightarrow> jstring" where
  "xpath_not_found d sel =
     xpath_not_found_head @ sel @ not_found_details d @ xpath_not_found_tail"

text \<open>\<^verbatim>\<open>selector.split(/[.#\[\s>+~]/)[0]\<close>: the text before the first delimiter.\<close>

definition is_selector_delimiter :: "nat \<Rightarrow> bool" where
  "is_selector_delimiter c =
     (c = 46 \<or> c = 35 \<or> c = 91 \<or> is_whitespace c \<or> c = 62 \<or> c = 43 \<or> c = 126)"

definition leading_token :: "jstring \<Rightarrow> jstring" where
  "leading_token sel = takeWhile (\<lambda>c. \<not> is_selector_delimiter c) sel"

definition similar_elements :: "(jstring \<Rightarrow> jstring) \<Rightarrow> document \<Rightarrow> jstring \<Rightarrow> element list" where
  "similar_elements lower d sel =
     take 5 (filter (\<lambda>el. lower (tagName el) = lower (leading_token sel)) (allElements d))"

definition describe_element :: "(jstring \<Rightarrow> jstring) \<Rightarrow> element \<Rightarrow> jstring" where
  \<open>describe_element lower el =
     js ''&lt;'' @ lower (tagName el)
     @ (if elementId el \<noteq> [] then js '' id="'' @ elementId el @ js ''"'' else [])
     @ (if className el \<noteq> [] then js '' class="'' @ className el @ js ''"'' else [])
     @ js ''&gt;''\<close>

definition similar_elements_text :: "(jstring \<Rightarrow> jstring) \<Rightarrow> document \<Rightarrow> jstring \<Rightarrow> jstring" where
  "similar_elements_text lower d sel =
     (let joined = join_with (js '', '') (map (describe_element lower) (similar_elements lower d sel))
      in if joined = [] then js ''None found'' else joined)"

definition css_not_found :: "(jstring \<Rightarrow> jstring) \<Rightarrow> document \<Rightarrow> jstring \<Rightarrow> jstring" where
  \<open>css_not_found lower d sel =
     css_not_found_head @ sel @ not_found_details d
     @ js '' characters</li>\<newline>  <li><strong>Similar Elements:</strong> ''
     @ similar_elements_text lower d sel @ css_not_found_tail\<close>

definition selector_error :: "js_error \<Rightarrow> jstring" where
  "selector_error err =
     js ''Selector error: '' @ errorMsg err @ js ''. For XPath, use '' @ [39] @ js ''//'' @ [39]
     @ js '' or '' @ [39] @ js ''/'' @ [39]
     @ js '' prefix. For CSS, use standard selectors.''"

text \<open>
  The function evaluated inside the page, applied to \<open>args.selector || null\<close>: a missing
  or empty selector gives the whole document.
\<close>

definition get_html_in_page :: "(jstring \<Rightarrow> jstring) \<Rightarrow> document \<Rightarrow> jstring option \<Rightarrow> jstring" where
  "get_html_in_page lower d sel_arg =
     (if truthy sel_arg then
        let sel = template sel_arg
        in if startsWith sel (js ''/'') \<or> startsWith sel (js ''./'') \<or> startsWith sel (js ''//'')
           then
             (case evaluate_xpath d sel of
                Inl err \<Rightarrow> selector_error err
              | Inr None \<Rightarrow> xpath_not_found d sel
              | Inr (Some OtherNode) \<Rightarrow> xpath_not_found d sel
              | Inr (Some (ElementNode outerHTML)) \<Rightarrow> outerHTML)
           else
             (case querySelector d sel of
                Inl err \<Rightarrow> selector_error err
              | Inr None \<Rightarrow> css_not_found lower d sel
              | Inr (Some OtherNode) \<Rightarrow> css_not_found lower d sel
              | Inr (Some (ElementNode outerHTML)) \<Rightarrow> outerHTML)
      else documentOuterHTML d)"

definition artifact_filename :: "tool_io \<Rightarrow> jstring" where
  "artifact_filename io =
     js ''stagehand-html-'' @ show_nat (now io) @ js ''-'' @ randomHex io @ js ''.html''"

definition artifact_url :: "tool_io \<Rightarrow> jstring" where
  "artifact_url io =
     js ''http://localhost:'' @ or_default (STAGEHAND_HTTP_PORT io) (js ''8080'') @ js ''/tmp/''
     @ artifact_filename io"

definition case_stagehand_get_html ::
  "tool_io \<Rightarrow> tool_args \<Rightarrow> page \<Rightarrow> server_state \<Rightarrow> CallToolResult \<times> server_state" where
  "case_stagehand_get_html io args pg s =
     (case document pg of
        Inl e \<Rightarrow> (failure_with_logs (js ''Failed to get HTML: '') e s, s)
      | Inr d \<Rightarrow>
          let html = get_html_in_page (toLowerCase io) d (selector args)
          in (case mkdir io of
                Some e \<Rightarrow> (failure_with_logs (js ''Failed to get HTML: '') e s, s)
              | None \<Rightarrow>
                  let filePath = path_join [tmp_dir io, artifact_filename io]
                  in (case writeFile io of
                        Some e \<Rightarrow> (failure_with_logs (js ''Failed to get HTML: '') e s, s)
                      | None \<Rightarrow>
                          (\<lparr>content = [TextItem (js ''HTML saved to: '' @ artifact_url io)],
                            isError = False\<rparr>,
                           s\<lparr>files := files s @ [(filePath, html)]\<rparr>))))"

subsection \<open>\<open>screenshot\<close>\<close>

text \<open>\<open>Map.prototype.set\<close>: an existing key keeps its place.\<close>

fun map_set :: "jstring \<Rightarrow> jstring \<Rightarrow> (jstring \<times> jstring) list \<Rightarrow> (jstring \<times> jstring) list" where
  "map_set k v [] = [(k, v)]"
| "map_set k v ((k', v') # m) = (if k' = k then (k, v) # m else (k', v') # map_set k v m)"

definition case_screenshot ::
  "logging \<Rightarrow> tool_io \<Rightarrow> page \<Rightarrow> server_state \<Rightarrow> CallToolResult \<times> server_state" where
  "case_screenshot L io pg s =
     (case screenshot pg of
        Inl e \<Rightarrow> (failure_with_logs (js ''Failed to take screenshot: '') e s, s)
      | Inr screenshotBase64 \<Rightarrow>
          let name = js ''screenshot-'' @ map (\<lambda>c. if c = 58 then 45 else c) (isoTime io)
          in (\<lparr>content =
                 [TextItem (js ''Screenshot taken with name: '' @ name),
                  ImageItem screenshotBase64 (js ''image/png'')],
               isError = False\<rparr>,
              s\<lparr>screenshots := map_set name screenshotBase64 (screenshots s),
                notifications := (if serverInstance L then Suc (notifications s)
                                  else notifications s)\<rparr>))"

subsection \<open>\<open>handleToolCall\<close>\<close>

text \<open>A tool that returns its result.\<close>

definition returns ::
  "CallToolResult \<times> server_state \<Rightarrow> (js_error + CallToolResult) \<times> server_state" where
  "returns r = (Inr (fst r), snd r)"

text \<open>The result of the call, or the exception that leaves it.\<close>

definition handleToolCall ::
  "logging \<Rightarrow> tool_io \<Rightarrow> jstring \<Rightarrow> tool_args \<Rightarrow> page \<Rightarrow> server_state
     \<Rightarrow> (js_error + CallToolResult) \<times> server_state" where
  "handleToolCall L io name args pg s =
     (if name = js ''stagehand_navigate'' then returns (case_stagehand_navigate args pg s)
      else if name = js ''stagehand_act'' then returns (case_stagehand_act args pg s)
      else if name = js ''stagehand_extract'' then case_stagehand_extract pg s
      else if name = js ''stagehand_observe'' then returns (case_stagehand_observe args pg s)
      else if name = js ''stagehand_get_html'' then
        returns (case_stagehand_get_html io args pg s)
      else if name = js ''screenshot'' then returns (case_screenshot L io pg s)
      else
        (Inr \<lparr>content = [TextItem (js ''Unknown tool: '' @ name), operation_logs_item s],
              isError = True\<rparr>, s))"

section \<open>The dispatcher (the \<open>CallToolRequestSchema\<close> handler of \<open>server.ts\<close>)\<close>

text \<open>
  A request: \<open>request.params?.name\<close> and \<open>request.params.arguments\<close>, each of which may be
  missing.
\<close>

record tool_request =
  req_name :: "jstring option"
  req_arguments :: "tool_args option"

text \<open>\<^verbatim>\<open>request.params.arguments ?? {}\<close>\<close>

definition no_arguments :: tool_args where
  "no_arguments =
     \<lparr>url = None, action = None, variables = None, instruction = None, selector = None\<rparr>"

fun arguments_or_empty :: "tool_args option \<Rightarrow> tool_args" where
  "arguments_or_empty None = no_arguments"
| "arguments_or_empty (Some a) = a"

text \<open>
  What the handler returns: a result envelope built by the handler itself, the object
  \<open>{error: {code, message}}\<close> of its outer \<open>catch\<close>, or the value of
  \<open>JSON.parse(sanitizeMessage(result))\<close>.
  \<open>sanitizeMessage\<close> comes from \<open>utils.js\<close> and \<open>logRequest\<close> and \<open>logResponse\<close> from
  \<open>logging.js\<close>, whose sources are not available; they and the built-in \<open>JSON.parse\<close>
  are parameters, the two logging functions by their effect on the operation log.
\<close>

datatype 'r response = Envelope CallToolResult | ErrorObject int jstring | Parsed 'r

record 'r utils =
  sanitizeMessage :: "CallToolResult \<Rightarrow> jstring"
  JSON_parse :: "jstring \<Rightarrow> js_error + 'r"
  logRequest :: "jstring \<Rightarrow> tool_request \<Rightarrow> jstring list \<Rightarrow> jstring list"
  logResponse :: "jstring \<Rightarrow> 'r \<Rightarrow> jstring list \<Rightarrow> jstring list"

definition internal_error :: "jstring \<Rightarrow> 'r response" where
  "internal_error msg = ErrorObject (- 32603) (js ''Internal error: '' @ msg)"

text \<open>\<^verbatim>\<open>!request.params?.name || !TOOLS.find((t) => t.name === request.params.name)\<close>\<close>

definition invalid_tool_name :: "tool_request \<Rightarrow> bool" where
  "invalid_tool_name req = (\<not> (truthy (req_name req) \<and> template (req_name req) \<in> set TOOLS))"

definition initialization_failure ::
  "ConstructorParams \<Rightarrow> js_error \<Rightarrow> server_state \<Rightarrow> CallToolResult" where
  "initialization_failure cfg e s =
     \<lparr>content =
        [TextItem (js ''Failed to initialize Stagehand: '' @ errorMsg e
                   @ js ''.\<newline>\<newline>Config: '' @ stringify2 (config_json cfg)),
         operation_logs_item s],
      isError = True\<rparr>"

definition callTool ::
  "logging \<Rightarrow> 'r utils \<Rightarrow> ConstructorParams \<Rightarrow> tool_io \<Rightarrow> stagehand_world \<Rightarrow> (handle \<Rightarrow> page)
     \<Rightarrow> tool_request \<Rightarrow> server_state \<Rightarrow> 'r response \<times> server_state" where
  "callTool L U cfg io w pages req s =
     (let s0 = s\<lparr>operationLogs := logRequest U (js ''CallTool'') req (operationLogs s)\<rparr>;
          s1 = s0\<lparr>operationLogs := []\<rparr>
      in if invalid_tool_name req
         then (internal_error (js ''Invalid tool name: '' @ template (req_name req)), s1)
         else
           (case ensureStagehand L cfg w s1 of
              (Inl e, s2) \<Rightarrow> (Envelope (initialization_failure cfg e s2), s2)
            | (Inr h, s2) \<Rightarrow>
                (case handleToolCall L io (template (req_name req))
                        (arguments_or_empty (req_arguments req)) (pages h)
                        (s2\<lparr>stagehand := Some h\<rparr>) of
                   (Inl e, s3) \<Rightarrow> (internal_error (errorMsg e), s3)
                 | (Inr result, s3) \<Rightarrow>
                     (case JSON_parse U (sanitizeMessage U result) of
                        Inl e \<Rightarrow> (internal_error (errorMsg e), s3)
                      | Inr r \<Rightarrow>
                          (Parsed r,
                           s3\<lparr>operationLogs :=
                                logResponse U (js ''CallTool'') r (operationLogs s3)\<rparr>)))))"

section \<open>Auxiliary notions and sample values\<close>


definition is_error_envelope :: "'r response \<Rightarrow> bool" where
  "is_error_envelope r =
     (case r of Envelope e \<Rightarrow> isError e | ErrorObject c m \<Rightarrow> False | Parsed p \<Rightarrow> False)"



definition quiet_logging :: logging where
  "quiet_logging =
     \<lparr>log = (\<lambda>message level logs. logs @ [message]), serverInstance = True\<rparr>"

definition initial_state :: server_state where
  "initial_state =
     \<lparr>stagehand = None, allocated = 0, operationLogs = [], trace = [], files = [],
      screenshots = [], notifications = 0\<rparr>"

text \<open>A state with a session and an entry left in the operation log by an earlier call.\<close>

definition live_state :: server_state where
  "live_state =
     initial_state\<lparr>stagehand := Some 0, allocated := 1, operationLogs := [js ''earlier entry'']\<rparr>"

definition healthy_world :: stagehand_world where
  "healthy_world = \<lparr>construct = None, init = (\<lambda>h. None), probe = (\<lambda>h. None)\<rparr>"

definition expired_world :: stagehand_world where
  "expired_world =
     healthy_world\<lparr>probe := (\<lambda>h. Some (Error (js ''page.evaluate: Session expired'')))\<rparr>"

definition broken_world :: stagehand_world where
  "broken_world = healthy_world\<lparr>probe := (\<lambda>h. Some (Error (js ''read ECONNRESET'')))\<rparr>"

text \<open>An environment with a local debugging endpoint, and one with two API keys only.\<close>

definition cdp_env :: "jstring \<Rightarrow> jstring option" where
  "cdp_env v = (if v = js ''LOCAL_CDP_URL'' then Some (js ''ws://localhost:9222'') else None)"

definition cdp_config :: ConstructorParams where
  "cdp_config = stagehandConfig cdp_env (\<lambda>i. None)"



definition text_utils :: "jstring utils" where
  "text_utils =
     \<lparr>sanitizeMessage = (\<lambda>r. if isError r then js ''error'' else js ''ok''),
      JSON_parse = Inr,
      logRequest = (\<lambda>type req logs. logs @ [type @ js '' '' @ template (req_name req)]),
      logResponse = (\<lambda>type r logs. logs @ [type @ js '' '' @ r])\<rparr>"

definition idle_page :: page where
  "idle_page =
     \<lparr>goto = (\<lambda>u. None), act = (\<lambda>a v. None), innerText = Inr [],
      observe = (\<lambda>i. Inr (js ''[]'')), document = Inl (Error (js ''page closed'')),
      screenshot = Inr [], sessionID = None\<rparr>"

definition ascii_lower :: "jstring \<Rightarrow> jstring" where
  "ascii_lower s = map (\<lambda>c. if 65 \<le> c \<and> c \<le> 90 then c + 32 else c) s"

definition sample_io :: tool_io where
  "sample_io =
     \<lparr>toLowerCase = ascii_lower, tmp_dir = js ''/app/tmp'', now = 1700000000000,
      randomHex = js ''00ff00ff00ff'', mkdir = None, writeFile = None,
      STAGEHAND_HTTP_PORT = None, isoTime = js ''2025-01-01T00:00:00.000Z''\<rparr>"

definition sample_element :: "jstring \<Rightarrow> jstring \<Rightarrow> jstring \<Rightarrow> element" where
  "sample_element t i c = \<lparr>tagName = t, elementId = i, className = c\<rparr>"

text \<open>A document with six \<open>div\<close> elements in which no selector matches.\<close>

definition sample_document :: document where
  "sample_document =
     \<lparr>evaluate_xpath = (\<lambda>sel. Inr None),
      querySelector = (\<lambda>sel. Inr None),
      allElements =
        [sample_element (js ''HTML'') [] [], sample_element (js ''BODY'') [] [],
         sample_element (js ''DIV'') (js ''main'') (js ''container''),
         sample_element (js ''SPAN'') [] [], sample_element (js ''DIV'') [] (js ''row''),
         sample_element (js ''DIV'') [] [], sample_element (js ''DIV'') [] [],
         sample_element (js ''DIV'') [] [], sample_element (js ''DIV'') [] []],
      title = js ''Example'',
      href = js ''https://example.com/'',
      documentOuterHTML = js ''<html><body></body></html>''\<rparr>"

definition sample_page :: page where
  "sample_page = idle_page\<lparr>document := Inr sample_document\<rparr>"

definition selector_args :: "jstring \<Rightarrow> tool_args" where
  "selector_args sel = no_arguments\<lparr>selector := Some sel\<rparr>"

definition act_args :: "jstring \<Rightarrow> (jstring \<times> jstring) list \<Rightarrow> tool_args" where
  "act_args a vs = no_arguments\<lparr>action := Some a, variables := Some vs\<rparr>"

section \<open>Facts about strings and \<open>JSON.stringify\<close>\<close>

lemma includes_appendL: "str_includes a t \<Longrightarrow> str_includes (a @ b) t"
  unfolding str_includes_def sublist_def by (metis append_assoc)

lemma includes_appendR: "str_includes b t \<Longrightarrow> str_includes (a @ b) t"
  unfolding str_includes_def sublist_def by (metis append_assoc)


lemma includes_refl: "str_includes t t"
  unfolding str_includes_def by simp



lemma join_with_nonempty:
  "xs \<noteq> [] \<Longrightarrow> list_all (\<lambda>x. x \<noteq> []) xs \<Longrightarrow> join_with sep xs \<noteq> []"
  by (induction sep xs rule: join_with.induct) simp_all











lemma string_text_frame:
  "SerializeJSONProperty gap ind (JStr k) = Some ([] @ QuoteJSONString k @ [])"
  by simp






section \<open>Facts about the session manager and the dispatcher\<close>

lemma ensureStagehand_guard:
  "local_without_cdp cfg \<Longrightarrow> ensureStagehand L cfg w s = (Inl (Error config_error_message), s)"
  by (simp add: ensureStagehand_def)


text \<open>
  The stored handle is always an object that was allocated before: the invariant holds in
  the initial state and every call of \<open>ensureStagehand\<close> keeps it.
\<close>

lemma initial_state_allocated: "\<forall>h. stagehand initial_state = Some h \<longrightarrow> h < allocated initial_state"
  by (simp add: initial_state_def)

lemma create_session_allocated:
  assumes "\<forall>h. stagehand s = Some h \<longrightarrow> h < allocated s"
  shows "\<forall>h. stagehand (snd (create_session w s)) = Some h
              \<longrightarrow> h < allocated (snd (create_session w s))"
  using assms by (auto simp add: create_session_def Let_def split: option.splits)

lemma ensureStagehand_allocated:
  assumes "\<forall>h. stagehand s = Some h \<longrightarrow> h < allocated s"
  shows "\<forall>h. stagehand (snd (ensureStagehand L cfg w s)) = Some h
              \<longrightarrow> h < allocated (snd (ensureStagehand L cfg w s))"
proof -
  have "\<forall>h. stagehand (snd (acquire_session L w s)) = Some h
              \<longrightarrow> h < allocated (snd (acquire_session L w s))"
  proof (cases "stagehand s")
    case None
    with create_session_allocated [OF assms, of w] show ?thesis
      by (simp add: acquire_session_def)
  next
    case (Some h0)
    let ?s1 = "s\<lparr>trace := trace s @ [Probe h0]\<rparr>"
    let ?s2 = "?s1\<lparr>operationLogs :=
                   log L (js ''Browser session expired, reinitializing Stagehand...'')
                     (js ''info'') (operationLogs ?s1)\<rparr>"
    from assms have "\<forall>h. stagehand ?s2 = Some h \<longrightarrow> h < allocated ?s2" by simp
    from create_session_allocated [OF this, of w] Some assms show ?thesis
      by (auto simp add: acquire_session_def Let_def split: option.splits)
  qed
  then show ?thesis
    by (cases "acquire_session L w s")
      (auto simp add: ensureStagehand_def assms split: sum.splits)
qed


text \<open>
  With a configuration that fails the guard no call ever stores a handle, and the tools
  leave the session variable and the allocation counter alone, so the dispatcher keeps the
  allocation invariant too.
\<close>

lemma ensureStagehand_without_cdp_stores_nothing:
  "local_without_cdp cfg \<Longrightarrow> stagehand (snd (ensureStagehand L cfg w s)) = stagehand s"
  by (simp add: ensureStagehand_guard)

lemma callTool_without_cdp_stores_nothing:
  "local_without_cdp cfg \<Longrightarrow> stagehand (snd (callTool L U cfg io w pages req s)) = stagehand s"
  by (simp add: callTool_def ensureStagehand_guard Let_def)

lemma handleToolCall_keeps_session:
  "stagehand (snd (handleToolCall L io name args pg s)) = stagehand s
   \<and> allocated (snd (handleToolCall L io name args pg s)) = allocated s"
  by (simp add: handleToolCall_def case_stagehand_navigate_def case_stagehand_act_def
      case_stagehand_extract_def case_stagehand_observe_def case_stagehand_get_html_def
      case_screenshot_def returns_def Let_def split: option.splits sum.splits)

lemma callTool_allocated:
  assumes "\<forall>h. stagehand s = Some h \<longrightarrow> h < allocated s"
  shows "\<forall>h. stagehand (snd (callTool L U cfg io w pages req s)) = Some h
              \<longrightarrow> h < allocated (snd (callTool L U cfg io w pages req s))"
proof (cases "invalid_tool_name req")
  case True
  with assms show ?thesis by (simp add: callTool_def)
next
  case False
  let ?s1 = "s\<lparr>operationLogs := []\<rparr>"
  from assms have "\<forall>h. stagehand ?s1 = Some h \<longrightarrow> h < allocated ?s1" by simp
  note inv = ensureStagehand_allocated [OF this, of L cfg w]
  obtain r s2 where e: "ensureStagehand L cfg w ?s1 = (r, s2)"
    by (cases "ensureStagehand L cfg w ?s1")
  show ?thesis
  proof (cases r)
    case (Inl err)
    with False e inv show ?thesis by (simp add: callTool_def)
  next
    case (Inr h0)
    have ret: "stagehand s2 = Some h0"
      using e Inr
      by (auto simp add: ensureStagehand_def acquire_session_def create_session_def Let_def
          split: if_splits option.splits sum.splits prod.splits)
    obtain res s3 where t: "handleToolCall L io (template (req_name req))
        (arguments_or_empty (req_arguments req)) (pages h0) (s2\<lparr>stagehand := Some h0\<rparr>) = (res, s3)"
      by (cases "handleToolCall L io (template (req_name req))
        (arguments_or_empty (req_arguments req)) (pages h0) (s2\<lparr>stagehand := Some h0\<rparr>)")
    from handleToolCall_keeps_session [of L io "template (req_name req)"
        "arguments_or_empty (req_arguments req)" "pages h0" "s2\<lparr>stagehand := Some h0\<rparr>"] t
    have k: "stagehand s3 = Some h0" "allocated s3 = allocated s2" by simp_all
    from inv e ret have "h0 < allocated s2" by simp
    with False e Inr t k show ?thesis
      by (simp add: callTool_def split: sum.splits)
  qed
qed

text \<open>
  At the dispatcher too, the response to a successful \<open>stagehand_act\<close> call does not depend
  on the variables.
\<close>

lemma callTool_act_ignores_variables:
  assumes "ensureStagehand L cfg w (s\<lparr>operationLogs := []\<rparr>) = (Inr h, s2)"
    and "act (pages h) (action args) vs1 = None"
    and "act (pages h) (action args) vs2 = None"
  shows "callTool L U cfg io w pages
           \<lparr>req_name = Some (js ''stagehand_act''),
            req_arguments = Some (args\<lparr>variables := vs1\<rparr>)\<rparr> s
         = callTool L U cfg io w pages
           \<lparr>req_name = Some (js ''stagehand_act''),
            req_arguments = Some (args\<lparr>variables := vs2\<rparr>)\<rparr> s"
  using assms
  by (simp add: callTool_def invalid_tool_name_def TOOLS_def handleToolCall_def
      case_stagehand_act_def returns_def)


lemma cdp_config_valid: "\<not> local_without_cdp cdp_config"
  by (simp add: cdp_config_def stagehandConfig_def cdp_env_def local_without_cdp_def
      config_cdpUrl_def)





section \<open>Facts about the tools\<close>

text \<open>
  When null or undefined is thrown during \<open>stagehand_extract\<close>, reading its message raises
  a \<open>TypeError\<close> in the \<open>catch\<close> block, which leaves \<open>handleToolCall\<close> and becomes the
  protocol-level error object of the handler.
\<close>

lemma extract_catch_throws:
  "handleToolCall L io (js ''stagehand_extract'') args (pg\<lparr>innerText := Inl (Nullish v t)\<rparr>) s
     = (Inl (Error t), s)"
  by (simp add: handleToolCall_def case_stagehand_extract_def)

lemma callTool_tool_exception:
  assumes "\<not> invalid_tool_name req"
    and "ensureStagehand L cfg w (s\<lparr>operationLogs := []\<rparr>) = (Inr h, s2)"
    and "handleToolCall L io (template (req_name req)) (arguments_or_empty (req_arguments req))
           (pages h) (s2\<lparr>stagehand := Some h\<rparr>) = (Inl e, s3)"
  shows "callTool L U cfg io w pages req s = (internal_error (errorMsg e), s3)"
  using assms by (simp add: callTool_def)

lemmas line_tests =
  keep_line_def spec_dropped_def trim_def is_whitespace_def str_includes_def sublist_code
  matches_class_rule_def matches_declaration_def is_property_char_def is_alpha_def
  is_value_char_def is_digit_def is_class_char_def is_hex_def

lemma keep_line_spec: "keep_line = (\<lambda>line. line \<noteq> [] \<and> \<not> spec_dropped line)"
  by (rule ext) (simp add: keep_line_def spec_dropped_def)

text \<open>
  The two line tests accept exactly the lines of the regular expressions
  \<^verbatim>\<open>^[a-zA-Z-]+:[a-zA-Z0-9%\s\(\)\.,-]+;$\<close> and \<^verbatim>\<open>^\.[a-zA-Z0-9_-]+\s*{\<close>.
\<close>

lemma not_property_colon: "\<not> is_property_char 58"
  by (simp add: is_property_char_def is_alpha_def)

lemma not_value_semicolon: "\<not> is_value_char 59"
  by (simp add: is_value_char_def is_alpha_def is_digit_def is_whitespace_def)

lemma matches_declaration_iff:
  "matches_declaration line \<longleftrightarrow>
     (\<exists>p v. line = p @ [58] @ v @ [59] \<and> p \<noteq> [] \<and> v \<noteq> []
            \<and> list_all is_property_char p \<and> list_all is_value_char v)"
proof
  assume m: "matches_declaration line"
  let ?p = "takeWhile is_property_char line"
  from m obtain rest where d: "dropWhile is_property_char line = 58 # rest"
    and r: "rest \<noteq> []" "last rest = 59" "butlast rest \<noteq> []" "list_all is_value_char (butlast rest)"
    and p: "?p \<noteq> []"
    by (auto simp add: matches_declaration_def split: list.splits)
  have "line = ?p @ dropWhile is_property_char line" by simp
  with d r have "line = ?p @ [58] @ butlast rest @ [59]"
    by (metis append_Cons append_Nil append_butlast_last_id)
  moreover have "list_all is_property_char ?p"
    by (simp add: list_all_iff) (meson set_takeWhileD)
  ultimately show "\<exists>p v. line = p @ [58] @ v @ [59] \<and> p \<noteq> [] \<and> v \<noteq> []
            \<and> list_all is_property_char p \<and> list_all is_value_char v"
    using p r by blast
next
  assume "\<exists>p v. line = p @ [58] @ v @ [59] \<and> p \<noteq> [] \<and> v \<noteq> []
            \<and> list_all is_property_char p \<and> list_all is_value_char v"
  then obtain p v where l: "line = p @ [58] @ v @ [59]" and ne: "p \<noteq> []" "v \<noteq> []"
    and a: "list_all is_property_char p" "list_all is_value_char v"
    by blast
  from a(1) have t: "takeWhile is_property_char line = p"
    and d: "dropWhile is_property_char line = 58 # v @ [59]"
    by (simp_all add: l list_all_iff not_property_colon)
  from ne a t d show "matches_declaration line"
    by (simp add: matches_declaration_def)
qed

lemma not_class_space: "is_whitespace c \<Longrightarrow> \<not> is_class_char c"
  by (auto simp add: is_class_char_def is_alpha_def is_digit_def is_whitespace_def)

lemma not_class_brace: "\<not> is_class_char 123" "\<not> is_whitespace 123"
  by (simp_all add: is_class_char_def is_alpha_def is_digit_def is_whitespace_def)

lemma matches_class_rule_iff:
  "matches_class_rule line \<longleftrightarrow>
     (\<exists>n w rest. line = [46] @ n @ w @ [123] @ rest \<and> n \<noteq> []
            \<and> list_all is_class_char n \<and> list_all is_whitespace w)"
proof
  assume m: "matches_class_rule line"
  then obtain tl where l: "line = 46 # tl" and n: "takeWhile is_class_char tl \<noteq> []"
    by (auto simp add: matches_class_rule_def split: list.splits)
  let ?n = "takeWhile is_class_char tl"
  let ?a = "dropWhile is_class_char tl"
  let ?w = "takeWhile is_whitespace ?a"
  from m l obtain after where b: "dropWhile is_whitespace ?a = 123 # after"
    by (auto simp add: matches_class_rule_def split: list.splits)
  have "tl = ?n @ ?w @ dropWhile is_whitespace ?a" by simp
  with l b have "line = [46] @ ?n @ ?w @ [123] @ after" by simp
  moreover have "list_all is_class_char ?n" "list_all is_whitespace ?w"
    by (simp_all add: list_all_iff) (meson set_takeWhileD)+
  ultimately show "\<exists>n w rest. line = [46] @ n @ w @ [123] @ rest \<and> n \<noteq> []
            \<and> list_all is_class_char n \<and> list_all is_whitespace w"
    using n by blast
next
  assume "\<exists>n w rest. line = [46] @ n @ w @ [123] @ rest \<and> n \<noteq> []
            \<and> list_all is_class_char n \<and> list_all is_whitespace w"
  then obtain n w rest where l: "line = [46] @ n @ w @ [123] @ rest" and ne: "n \<noteq> []"
    and a: "list_all is_class_char n" "list_all is_whitespace w"
    by blast
  have h: "takeWhile is_class_char (w @ 123 # rest) = []"
    using a(2) not_class_space not_class_brace by (cases w) (simp_all)
  from a(1) h have t: "takeWhile is_class_char (n @ w @ [123] @ rest) = n"
    by (simp add: list_all_iff)
  have h': "dropWhile is_class_char (w @ 123 # rest) = w @ 123 # rest"
    using a(2) not_class_space not_class_brace by (cases w) (simp_all)
  from a(1) h' have d: "dropWhile is_class_char (n @ w @ [123] @ rest) = w @ 123 # rest"
    by (simp add: list_all_iff)
  from a(2) have d': "dropWhile is_whitespace (w @ 123 # rest) = 123 # rest"
    by (simp add: list_all_iff not_class_brace)
  from ne t d d' show "matches_class_rule line"
    by (simp add: matches_class_rule_def l)
qed

lemma xpath_head_title: "str_includes xpath_not_found_head (js ''XPath Element Not Found'')"
  by (simp add: xpath_not_found_head_def str_includes_def sublist_code)

lemma css_head_title: "str_includes css_not_found_head (js ''CSS Element Not Found'')"
  by (simp add: css_not_found_head_def str_includes_def sublist_code)

lemma similar_elements_text_eq:
  "similar_elements_text lower d sel
     = (if similar_elements lower d sel = [] then js ''None found''
        else join_with (js '', '') (map (describe_element lower) (similar_elements lower d sel)))"
proof (cases "similar_elements lower d sel = []")
  case True
  then show ?thesis by (simp add: similar_elements_text_def)
next
  case False
  have "list_all (\<lambda>x. x \<noteq> []) (map (describe_element lower) (similar_elements lower d sel))"
    by (simp add: list_all_iff describe_element_def)
  with False
  have "join_with (js '', '') (map (describe_element lower) (similar_elements lower d sel)) \<noteq> []"
    by (intro join_with_nonempty) simp_all
  with False show ?thesis by (simp add: similar_elements_text_def Let_def)
qed

section \<open>The claims\<close>

text \<open>
  Claim C1 (a tool name absent from the registry gives an \<open>isError\<close> envelope, no session
  acquisition and no clearing of the operation log). The handler clears the log first and
  then throws on the name, and its outer \<open>catch\<close> turns the exception into the object
  \<open>{error: {code: -32603, message}}\<close>. As amended: for every request whose name is missing
  or absent from the registry, the handler returns that protocol-level error object with the
  message \<open>Internal error: Invalid tool name: <name>\<close>, no exception escapes, the session
  variable, the allocation counter and the trace of library calls are unchanged, and the
  operation log has been cleared.
\<close>

theorem callTool_unknown_tool_protocol_error:
  assumes "template (req_name req) \<notin> set TOOLS"
  shows "callTool L U cfg io w pages req s
           = (ErrorObject (- 32603)
                (js ''Internal error: Invalid tool name: '' @ template (req_name req)),
              s\<lparr>operationLogs := []\<rparr>)
         \<and> stagehand (snd (callTool L U cfg io w pages req s)) = stagehand s
         \<and> allocated (snd (callTool L U cfg io w pages req s)) = allocated s
         \<and> trace (snd (callTool L U cfg io w pages req s)) = trace s
         \<and> operationLogs (snd (callTool L U cfg io w pages req s)) = []"
  using assms by (simp add: callTool_def invalid_tool_name_def internal_error_def)

theorem callTool_unknown_tool_protocol_error_witness:
  "callTool quiet_logging text_utils cdp_config sample_io healthy_world (\<lambda>h. idle_page)
     \<lparr>req_name = Some (js ''no_such_tool''), req_arguments = None\<rparr> live_state
     = (ErrorObject (- 32603) (js ''Internal error: Invalid tool name: no_such_tool''),
        live_state\<lparr>operationLogs := []\<rparr>)
   \<and> trace (snd (callTool quiet_logging text_utils cdp_config sample_io healthy_world
                     (\<lambda>h. idle_page)
                     \<lparr>req_name = Some (js ''no_such_tool''), req_arguments = None\<rparr> live_state))
       = trace live_state"
  using callTool_unknown_tool_protocol_error
    [of "\<lparr>req_name = Some (js ''no_such_tool''), req_arguments = None\<rparr>" quiet_logging
      text_utils cdp_config sample_io healthy_world "\<lambda>h. idle_page" live_state]
  by (simp add: TOOLS_def)

text \<open>
  The claim as stated fails for the name \<open>no_such_tool\<close>: the response is not an error
  envelope, and the log entry of the earlier call is gone.
\<close>

theorem callTool_unknown_tool_not_envelope:
  "\<not> is_error_envelope
       (fst (callTool quiet_logging text_utils cdp_config sample_io healthy_world
               (\<lambda>h. idle_page)
               \<lparr>req_name = Some (js ''no_such_tool''), req_arguments = None\<rparr> live_state))
   \<and> operationLogs live_state = [js ''earlier entry'']
   \<and> operationLogs
        (snd (callTool quiet_logging text_utils cdp_config sample_io healthy_world
                (\<lambda>h. idle_page)
                \<lparr>req_name = Some (js ''no_such_tool''), req_arguments = None\<rparr> live_state))
       = []"
  by (simp add: callTool_def invalid_tool_name_def internal_error_def TOOLS_def
      is_error_envelope_def live_state_def initial_state_def)

text \<open>
  Claim C2 (path escape is answered with 403 and no file outside the artifact directory is
  served). The check is a string prefix test without a path separator, so a sibling of the
  artifact directory whose name extends the directory's name passes it: with the artifact
  directory \<open>/app/tmp\<close>, the request \<open>/tmp/../tmp-evil/secret.html\<close> resolves to
  \<open>/app/tmp-evil/secret.html\<close>, which is outside the directory, and the file is read and
  served with status 200.
\<close>

theorem static_server_serves_sibling_directory:
  "path_join [js ''/app/tmp'', replace_first (js ''/tmp/../tmp-evil/secret.html'') (js ''/tmp/'') []]
     = js ''/app/tmp-evil/secret.html''
   \<and> \<not> inside_directory (js ''/app/tmp'') (js ''/app/tmp-evil/secret.html'')
   \<and> requestListener enc (js ''/app/tmp'') sibling_fs (Some (js ''/tmp/../tmp-evil/secret.html''))
       = \<lparr>status = 200, contentType = Some (js ''text/html''), body = js ''TOP SECRET''\<rparr>"
  by (simp add: requestListener_def path_join_def normalize_def startsWith_def
      inside_directory_def sibling_fs_def respond_def Let_def)




text \<open>
  Claim C4 (every \<open>isError\<close> envelope has a text describing the failure and a text with
  the operation log). The failure branch of \<open>stagehand_extract\<close> returns the description
  only; the failure branches of the other tools, here \<open>stagehand_navigate\<close>, append the
  operation log.
\<close>

theorem extract_failure_omits_operation_log:
  "handleToolCall L io (js ''stagehand_extract'') args
       (pg\<lparr>innerText := Inl (Error (js ''Execution context was destroyed''))\<rparr>) s
     = (Inr \<lparr>content =
               [TextItem (js ''Failed to extract content: Execution context was destroyed'')],
             isError = True\<rparr>, s)
   \<and> handleToolCall L io (js ''stagehand_navigate'') args
       (pg\<lparr>goto := (\<lambda>u. Some (Error (js ''net::ERR_NAME_NOT_RESOLVED'')))\<rparr>) s
     = (Inr \<lparr>content = [TextItem (js ''Failed to navigate: net::ERR_NAME_NOT_RESOLVED''),
                        operation_logs_item s],
             isError = True\<rparr>, s)"
  by (simp add: handleToolCall_def case_stagehand_extract_def case_stagehand_navigate_def
      failure_with_logs_def returns_def)

text \<open>
  Claim C5 (\<open>ensureStagehand\<close> with an existing handle). For a configuration that passes
  the guard and a state whose handle was allocated earlier: if the liveness probe succeeds,
  the same handle is returned and stays stored; if the probe fails with an \<open>Error\<close> whose
  message names a closed target, an expired session or a destroyed context, and the
  constructor and \<open>init()\<close> succeed, a fresh handle different from the old one is
  constructed, initialised, stored and returned; if the probe fails with any other error,
  that error is the result and the stored handle is unchanged.
\<close>

theorem ensureStagehand_existing_session:
  assumes "\<not> local_without_cdp cfg" and "stagehand s = Some h" and "h < allocated s"
  shows "(probe w h = None \<longrightarrow>
            ensureStagehand L cfg w s = (Inr h, s\<lparr>trace := trace s @ [Probe h]\<rparr>))
       \<and> (\<forall>e. probe w h = Some e \<and> is_invalidation e \<and> construct w = None
               \<and> init w (allocated s) = None \<longrightarrow>
             fst (ensureStagehand L cfg w s) = Inr (allocated s)
             \<and> allocated s \<noteq> h
             \<and> stagehand (snd (ensureStagehand L cfg w s)) = Some (allocated s)
             \<and> trace (snd (ensureStagehand L cfg w s))
                 = trace s @ [Probe h, Construct, Init (allocated s)])
       \<and> (\<forall>e. probe w h = Some e \<and> \<not> is_invalidation e \<longrightarrow>
             fst (ensureStagehand L cfg w s) = Inl e
             \<and> stagehand (snd (ensureStagehand L cfg w s)) = Some h)"
  using assms
  by (auto simp add: ensureStagehand_def acquire_session_def create_session_def Let_def)

theorem ensureStagehand_existing_session_witness:
  "ensureStagehand quiet_logging cdp_config healthy_world live_state
     = (Inr 0, live_state\<lparr>trace := trace live_state @ [Probe 0]\<rparr>)
   \<and> fst (ensureStagehand quiet_logging cdp_config expired_world live_state) = Inr 1
   \<and> stagehand (snd (ensureStagehand quiet_logging cdp_config expired_world live_state)) = Some 1
   \<and> trace (snd (ensureStagehand quiet_logging cdp_config expired_world live_state))
       = [Probe 0, Construct, Init 1]
   \<and> fst (ensureStagehand quiet_logging cdp_config broken_world live_state)
       = Inl (Error (js ''read ECONNRESET''))
   \<and> stagehand (snd (ensureStagehand quiet_logging cdp_config broken_world live_state)) = Some 0"
proof -
  have s: "stagehand live_state = Some 0" "0 < allocated live_state" "allocated live_state = 1"
    "trace live_state = []"
    by (simp_all add: live_state_def initial_state_def)
  have p: "probe healthy_world 0 = None"
    "probe expired_world 0 = Some (Error (js ''page.evaluate: Session expired''))"
    "construct expired_world = None" "init expired_world 1 = None"
    "probe broken_world 0 = Some (Error (js ''read ECONNRESET''))"
    by (simp_all add: healthy_world_def expired_world_def broken_world_def)
  have i: "is_invalidation (Error (js ''page.evaluate: Session expired''))"
    "\<not> is_invalidation (Error (js ''read ECONNRESET''))"
    by (simp_all add: str_includes_def sublist_code)
  show ?thesis
    using ensureStagehand_existing_session
        [OF cdp_config_valid s(1) s(2), of healthy_world quiet_logging]
      ensureStagehand_existing_session
        [OF cdp_config_valid s(1) s(2), of expired_world quiet_logging]
      ensureStagehand_existing_session
        [OF cdp_config_valid s(1) s(2), of broken_world quiet_logging]
      s p i
    by simp
qed

text \<open>
  Claim C6 (the prefix with or without a trailing slash gives the directory listing). The
  guard on the prefix \<open>/tmp/\<close> runs first, so the URL \<open>/tmp\<close> never reaches the listing
  branch that tests for it: the answer is 404.
\<close>

theorem static_server_tmp_without_slash_not_found:
  "requestListener enc dir fs (Some (js ''/tmp''))
     = \<lparr>status = 404, contentType = None, body = js ''Not Found''\<rparr>"
  by (simp add: requestListener_def startsWith_def respond_def)

text \<open>
  Claim C7 (selector dispatch of \<open>stagehand_get_html\<close>). For a non-empty selector: one
  that starts with \<open>/\<close>, \<open>./\<close> or \<open>//\<close> is given to the XPath evaluation and its first node
  decides the result, any other is given to \<open>querySelector\<close>; when there is no node, or
  the node is not an element, the result is the diagnostic document, which contains
  \<open>XPath Element Not Found\<close> (or \<open>CSS Element Not Found\<close>) and the selector text; the CSS
  document lists the similar elements, at most five, each with the tag name of the
  selector's leading token, or \<open>None found\<close>; and when the page evaluation and the file
  write succeed the tool stores that document and returns an envelope with
  \<open>isError = False\<close>.
\<close>

theorem get_html_selector_dispatch:
  assumes "sel \<noteq> []"
  shows
    "(startsWith sel (js ''/'') \<or> startsWith sel (js ''./'') \<or> startsWith sel (js ''//'') \<longrightarrow>
        get_html_in_page lower d (Some sel)
          = (case evaluate_xpath d sel of
               Inl err \<Rightarrow> selector_error err
             | Inr None \<Rightarrow> xpath_not_found d sel
             | Inr (Some OtherNode) \<Rightarrow> xpath_not_found d sel
             | Inr (Some (ElementNode outerHTML)) \<Rightarrow> outerHTML))
     \<and> (\<not> (startsWith sel (js ''/'') \<or> startsWith sel (js ''./'') \<or> startsWith sel (js ''//'')) \<longrightarrow>
        get_html_in_page lower d (Some sel)
          = (case querySelector d sel of
               Inl err \<Rightarrow> selector_error err
             | Inr None \<Rightarrow> css_not_found lower d sel
             | Inr (Some OtherNode) \<Rightarrow> css_not_found lower d sel
             | Inr (Some (ElementNode outerHTML)) \<Rightarrow> outerHTML))
     \<and> str_includes (xpath_not_found d sel) (js ''XPath Element Not Found'')
     \<and> str_includes (xpath_not_found d sel) sel
     \<and> str_includes (css_not_found lower d sel) (js ''CSS Element Not Found'')
     \<and> str_includes (css_not_found lower d sel) sel
     \<and> str_includes (css_not_found lower d sel) (similar_elements_text lower d sel)
     \<and> similar_elements_text lower d sel
          = (if similar_elements lower d sel = [] then js ''None found''
             else join_with (js '', '')
                    (map (describe_element lower) (similar_elements lower d sel)))
     \<and> length (similar_elements lower d sel) \<le> 5
     \<and> list_all (\<lambda>el. lower (tagName el) = lower (leading_token sel))
          (similar_elements lower d sel)
     \<and> (document pg = Inr d \<and> selector args = Some sel \<and> mkdir io = None
          \<and> writeFile io = None \<longrightarrow>
          handleToolCall L io (js ''stagehand_get_html'') args pg s
            = (Inr \<lparr>content = [TextItem (js ''HTML saved to: '' @ artifact_url io)],
                    isError = False\<rparr>,
               s\<lparr>files := files s
                      @ [(path_join [tmp_dir io, artifact_filename io],
                          get_html_in_page (toLowerCase io) d (Some sel))]\<rparr>))"
proof -
  have a: "startsWith sel (js ''/'') \<or> startsWith sel (js ''./'') \<or> startsWith sel (js ''//'') \<Longrightarrow>
        get_html_in_page lower d (Some sel)
          = (case evaluate_xpath d sel of
               Inl err \<Rightarrow> selector_error err
             | Inr None \<Rightarrow> xpath_not_found d sel
             | Inr (Some OtherNode) \<Rightarrow> xpath_not_found d sel
             | Inr (Some (ElementNode outerHTML)) \<Rightarrow> outerHTML)"
    using assms by (simp add: get_html_in_page_def)
  have b: "\<not> (startsWith sel (js ''/'') \<or> startsWith sel (js ''./'') \<or> startsWith sel (js ''//'')) \<Longrightarrow>
        get_html_in_page lower d (Some sel)
          = (case querySelector d sel of
               Inl err \<Rightarrow> selector_error err
             | Inr None \<Rightarrow> css_not_found lower d sel
             | Inr (Some OtherNode) \<Rightarrow> css_not_found lower d sel
             | Inr (Some (ElementNode outerHTML)) \<Rightarrow> outerHTML)"
    using assms by (simp add: get_html_in_page_def)
  have c: "str_includes (xpath_not_found d sel) (js ''XPath Element Not Found'')"
    unfolding xpath_not_found_def by (intro includes_appendL xpath_head_title)
  have c': "str_includes (xpath_not_found d sel) sel"
    unfolding xpath_not_found_def by (intro includes_appendR includes_appendL includes_refl)
  have e: "str_includes (css_not_found lower d sel) (js ''CSS Element Not Found'')"
    unfolding css_not_found_def by (intro includes_appendL css_head_title)
  have e': "str_includes (css_not_found lower d sel) sel"
    unfolding css_not_found_def
    by (rule includes_appendR) (rule includes_appendL, rule includes_refl)
  have f: "str_includes (css_not_found lower d sel) (similar_elements_text lower d sel)"
    unfolding css_not_found_def
    by (rule includes_appendR, rule includes_appendR, rule includes_appendR,
        rule includes_appendR, rule includes_appendL, rule includes_refl)
  have g: "length (similar_elements lower d sel) \<le> 5"
    by (simp add: similar_elements_def)
  have h: "list_all (\<lambda>el. lower (tagName el) = lower (leading_token sel))
             (similar_elements lower d sel)"
    unfolding similar_elements_def list_all_iff by (auto dest: in_set_takeD)
  have i: "document pg = Inr d \<and> selector args = Some sel \<and> mkdir io = None
             \<and> writeFile io = None \<Longrightarrow>
          handleToolCall L io (js ''stagehand_get_html'') args pg s
            = (Inr \<lparr>content = [TextItem (js ''HTML saved to: '' @ artifact_url io)],
                    isError = False\<rparr>,
               s\<lparr>files := files s
                      @ [(path_join [tmp_dir io, artifact_filename io],
                          get_html_in_page (toLowerCase io) d (Some sel))]\<rparr>)"
    by (simp add: handleToolCall_def case_stagehand_get_html_def returns_def Let_def)
  from a b c c' e e' f g h i similar_elements_text_eq [of lower d sel] show ?thesis
    by blast
qed

theorem get_html_selector_dispatch_witness:
  \<open>get_html_in_page ascii_lower sample_document (Some (js ''//nonexistent''))
     = xpath_not_found sample_document (js ''//nonexistent'')
   \<and> str_includes (xpath_not_found sample_document (js ''//nonexistent''))
         (js ''XPath Element Not Found'')
   \<and> str_includes (xpath_not_found sample_document (js ''//nonexistent'')) (js ''//nonexistent'')
   \<and> get_html_in_page ascii_lower sample_document (Some (js ''div.missing''))
     = css_not_found ascii_lower sample_document (js ''div.missing'')
   \<and> str_includes (css_not_found ascii_lower sample_document (js ''div.missing''))
         (js ''CSS Element Not Found'')
   \<and> str_includes (css_not_found ascii_lower sample_document (js ''div.missing''))
         (js ''&lt;div id="main" class="container"&gt;, &lt;div class="row"&gt;, &lt;div&gt;, &lt;div&gt;, &lt;div&gt;'')
   \<and> length (similar_elements ascii_lower sample_document (js ''div.missing'')) \<le> 5
   \<and> fst (handleToolCall quiet_logging sample_io (js ''stagehand_get_html'')
            (selector_args (js ''//nonexistent'')) sample_page initial_state)
       = Inr \<lparr>content = [TextItem (js ''HTML saved to: '' @ artifact_url sample_io)],
              isError = False\<rparr>\<close>
proof -
  have x: "startsWith (js ''//nonexistent'') (js ''/'')"
    and c: "\<not> (startsWith (js ''div.missing'') (js ''/'')
              \<or> startsWith (js ''div.missing'') (js ''./'')
              \<or> startsWith (js ''div.missing'') (js ''//''))"
    by (simp_all add: startsWith_def)
  have d: "evaluate_xpath sample_document (js ''//nonexistent'') = Inr None"
    "querySelector sample_document (js ''div.missing'') = Inr None"
    by (simp_all add: sample_document_def)
  have p: "document sample_page = Inr sample_document"
    "selector (selector_args (js ''//nonexistent'')) = Some (js ''//nonexistent'')"
    "mkdir sample_io = None" "writeFile sample_io = None"
    by (simp_all add: sample_page_def idle_page_def selector_args_def no_arguments_def
        sample_io_def)
  have t: \<open>similar_elements_text ascii_lower sample_document (js ''div.missing'')
      = js ''&lt;div id="main" class="container"&gt;, &lt;div class="row"&gt;, &lt;div&gt;, &lt;div&gt;, &lt;div&gt;''\<close>
    by (simp add: similar_elements_text_def similar_elements_def sample_document_def
        sample_element_def leading_token_def is_selector_delimiter_def is_whitespace_def
        ascii_lower_def describe_element_def Let_def)
  have n1: "js ''//nonexistent'' \<noteq> []" and n2: "js ''div.missing'' \<noteq> []"
    by simp_all
  note T1 = get_html_selector_dispatch [OF n1, of ascii_lower sample_document sample_page
      "selector_args (js ''//nonexistent'')" sample_io quiet_logging initial_state]
  note T2 = get_html_selector_dispatch [OF n2, of ascii_lower sample_document sample_page
      "selector_args (js ''//nonexistent'')" sample_io quiet_logging initial_state]
  from T1 x d
  have r1: "get_html_in_page ascii_lower sample_document (Some (js ''//nonexistent''))
     = xpath_not_found sample_document (js ''//nonexistent'')"
    by simp
  from T1
  have r2: "str_includes (xpath_not_found sample_document (js ''//nonexistent''))
         (js ''XPath Element Not Found'')"
    and r3: "str_includes (xpath_not_found sample_document (js ''//nonexistent''))
         (js ''//nonexistent'')"
    by blast+
  from T2 c d
  have r4: "get_html_in_page ascii_lower sample_document (Some (js ''div.missing''))
     = css_not_found ascii_lower sample_document (js ''div.missing'')"
    by simp
  from T2
  have r5: "str_includes (css_not_found ascii_lower sample_document (js ''div.missing''))
         (js ''CSS Element Not Found'')"
    and r6: "str_includes (css_not_found ascii_lower sample_document (js ''div.missing''))
         (similar_elements_text ascii_lower sample_document (js ''div.missing''))"
    and r7: "length (similar_elements ascii_lower sample_document (js ''div.missing'')) \<le> 5"
    by blast+
  from T1 p
  have r8: "fst (handleToolCall quiet_logging sample_io (js ''stagehand_get_html'')
            (selector_args (js ''//nonexistent'')) sample_page initial_state)
       = Inr \<lparr>content = [TextItem (js ''HTML saved to: '' @ artifact_url sample_io)],
              isError = False\<rparr>"
    by simp
  from r1 r2 r3 r4 r5 r6 [unfolded t] r7 r8 show ?thesis
    by blast
qed

text \<open>
  Claim C8 (the cleanup pass of \<open>stagehand_extract\<close>). The filter also drops the lines that
  are empty after trimming, which the claim does not list. As amended: the page text is
  split into lines, each line is trimmed, the empty lines and the lines of the four kinds
  the claim names are dropped, the escapes of the remaining lines are decoded, and the
  lines are joined with newlines; a text with the lines \<open>color: blue;\<close> and \<open>Hello world\<close>
  gives \<open>Hello world\<close>, and the escape of U+00E9 becomes the code unit 233.
\<close>

theorem extract_content_cleanup:
  "extract_content bodyText
     = join_with (js ''\<newline>'')
         (map decode_unicode
            (filter (\<lambda>line. line \<noteq> [] \<and> \<not> spec_dropped line)
               (map trim (split_on 10 bodyText))))
   \<and> extract_content (js ''color: blue;\<newline>Hello world'') = js ''Hello world''
   \<and> extract_content
        (js ''  .btn { margin: 0 }  \<newline>@keyframes spin\<newline>.card {\<newline>caf'' @ [92]
         @ js ''u00e9 \<newline>'')
       = js ''caf'' @ [233]"
proof -
  have 0: "extract_content bodyText
     = join_with (js ''\<newline>'')
         (map decode_unicode
            (filter (\<lambda>line. line \<noteq> [] \<and> \<not> spec_dropped line)
               (map trim (split_on 10 bodyText))))"
    by (simp add: extract_content_def keep_line_spec)
  have 1: "extract_content (js ''color: blue;\<newline>Hello world'') = js ''Hello world''"
    by (simp add: extract_content_def line_tests)
  have 2: "extract_content
        (js ''  .btn { margin: 0 }  \<newline>@keyframes spin\<newline>.card {\<newline>caf'' @ [92]
         @ js ''u00e9 \<newline>'')
       = js ''caf'' @ [233]"
    by (simp add: extract_content_def line_tests fromCharCode_hex_def hex_value_def)
  from 0 1 2 show ?thesis by blast
qed

text \<open>
  The claim as stated fails for a text with an empty line: the pass as the claim words it
  keeps the empty line, the code drops it.
\<close>

theorem extract_content_drops_empty_lines:
  "extract_content (js ''Title\<newline>\<newline>Body'') = js ''Title\<newline>Body''
   \<and> spec_extract (js ''Title\<newline>\<newline>Body'') = js ''Title\<newline>\<newline>Body''"
  by (simp add: extract_content_def spec_extract_def line_tests)

text \<open>
  Claim C9 (local environment without a debugging endpoint). If the configuration selects
  \<open>LOCAL\<close> and has no CDP URL, every call of \<open>ensureStagehand\<close>, in every state and
  whatever the library would do, returns the configuration error and leaves the state as
  it was: nothing is constructed, initialised or probed, and no session is stored.
\<close>

theorem ensureStagehand_local_without_cdp:
  assumes "env cfg = LOCAL" and "\<not> truthy (config_cdpUrl cfg)"
  shows "ensureStagehand L cfg w s = (Inl (Error config_error_message), s)"
  using assms by (simp add: ensureStagehand_def local_without_cdp_def)

theorem ensureStagehand_local_without_cdp_witness:
  "env (stagehandConfig (\<lambda>v. None) (\<lambda>i. None)) = LOCAL
   \<and> \<not> truthy (config_cdpUrl (stagehandConfig (\<lambda>v. None) (\<lambda>i. None)))
   \<and> ensureStagehand quiet_logging (stagehandConfig (\<lambda>v. None) (\<lambda>i. None)) healthy_world
        initial_state
       = (Inl (Error config_error_message), initial_state)"
  using ensureStagehand_local_without_cdp
    [of "stagehandConfig (\<lambda>v. None) (\<lambda>i. None)" quiet_logging healthy_world initial_state]
  by (simp add: stagehandConfig_def config_cdpUrl_def)

text \<open>
  Claim C10 (the success envelope of \<open>stagehand_act\<close>). When the action succeeds, the result
  is the one text item \<open>Action performed: <action>\<close> with \<open>isError = False\<close>, and two
  successful calls that differ only in the variables return the same result.
\<close>

theorem stagehand_act_success_envelope:
  assumes "act pg (action args) va = None" and "act pg (action args) vb = None"
  shows "handleToolCall L io (js ''stagehand_act'') (args\<lparr>variables := va\<rparr>) pg s
           = (Inr \<lparr>content = [TextItem (js ''Action performed: '' @ template (action args))],
                   isError = False\<rparr>, s)
         \<and> handleToolCall L io (js ''stagehand_act'') (args\<lparr>variables := va\<rparr>) pg s
           = handleToolCall L io (js ''stagehand_act'') (args\<lparr>variables := vb\<rparr>) pg s"
  using assms by (simp add: handleToolCall_def case_stagehand_act_def returns_def)

theorem stagehand_act_success_envelope_witness:
  "handleToolCall quiet_logging sample_io (js ''stagehand_act'')
     (act_args (js ''Fill in the password'') [(js ''password'', js ''hunter2'')]) idle_page
     initial_state
     = (Inr \<lparr>content = [TextItem (js ''Action performed: '' @ js ''Fill in the password'')],
             isError = False\<rparr>, initial_state)
   \<and> handleToolCall quiet_logging sample_io (js ''stagehand_act'')
     (act_args (js ''Fill in the password'') [(js ''password'', js ''hunter2'')]) idle_page
     initial_state
     = handleToolCall quiet_logging sample_io (js ''stagehand_act'')
     (act_args (js ''Fill in the password'') [(js ''password'', js ''correct horse'')]) idle_page
     initial_state"
proof -
  have a: "act idle_page (action (act_args (js ''Fill in the password'') [])) vs = None" for vs
    by (simp add: idle_page_def)
  have u: "(act_args (js ''Fill in the password'') [])\<lparr>variables := Some vs\<rparr>
             = act_args (js ''Fill in the password'') vs" for vs
    by (simp add: act_args_def)
  have t: "template (action (act_args (js ''Fill in the password'') []))
             = js ''Fill in the password''"
    by (simp add: act_args_def no_arguments_def)
  from stagehand_act_success_envelope
         [where pg = idle_page and args = "act_args (js ''Fill in the password'') []"
            and va = "Some [(js ''password'', js ''hunter2'')]"
            and vb = "Some [(js ''password'', js ''correct horse'')]"
            and L = quiet_logging and io = sample_io and s = initial_state, OF a a]
  show ?thesis
    unfolding u t .
qed

end
